theory Spec2Isabelle
  imports Complex_Main
begin

section \<open>Helios inference server: strings\<close>

text \<open>
  Python strings are modelled as HOL strings (lists of \<^typ>\<open>char\<close>), one \<^typ>\<open>char\<close> per code
  point, so only code points below 256 are covered. Python floats are modelled as
  \<^typ>\<open>real\<close>: no rounding, no infinities, no NaN.
\<close>

definition nl :: char where
  "nl = CHR 0x0A"

text \<open>\<^verbatim>\<open>str.isspace\<close> on one code point below 256: U+0009..U+000D, U+001C..U+0020, U+0085, U+00A0.\<close>

definition isspace :: "char \<Rightarrow> bool" where
  "isspace c = (of_char c \<in> {9, 10, 11, 12, 13, 28, 29, 30, 31, 32, 133, 160 :: nat})"

definition lstrip :: "string \<Rightarrow> string" where
  "lstrip s = dropWhile isspace s"

definition rstrip :: "string \<Rightarrow> string" where
  "rstrip s = rev (dropWhile isspace (rev s))"

text \<open>\<^verbatim>\<open>str.strip()\<close>: the left index is advanced first, then the right one.\<close>

definition strip :: "string \<Rightarrow> string" where
  "strip s = rstrip (lstrip s)"

definition startswith :: "string \<Rightarrow> string \<Rightarrow> bool" where
  "startswith s old = (take (length old) s = old)"

text \<open>
  \<^verbatim>\<open>s.replace(old, '')\<close>: one scan from the left; where \<open>old\<close> starts it is skipped and the
  scan goes on behind it, otherwise one character is copied. With an empty \<open>old\<close> and an empty
  replacement Python returns \<open>s\<close>.
\<close>

function replace :: "string \<Rightarrow> string \<Rightarrow> string" where
  "replace s old =
     (if old = [] \<or> s = [] then s
      else if startswith s old then replace (drop (length old) s) old
      else hd s # replace (tl s) old)"
  by pat_completeness auto
termination
  by (relation "measure (\<lambda>(s, old). length s)") auto

text \<open>\<^verbatim>\<open>s.split('\n')\<close>: never empty, \<^verbatim>\<open>''.split('\n') == ['']\<close>.\<close>

fun split_nl :: "string \<Rightarrow> string list" where
  "split_nl [] = [[]]"
| "split_nl (c # cs) =
     (if c = nl then [] # split_nl cs
      else (case split_nl cs of [] \<Rightarrow> [[c]] | l # ls \<Rightarrow> (c # l) # ls))"

text \<open>\<^verbatim>\<open>'\n'.join(xs)\<close>\<close>

fun join_nl :: "string list \<Rightarrow> string" where
  "join_nl [] = []"
| "join_nl [x] = x"
| "join_nl (x # y # ys) = x @ nl # join_nl (y # ys)"

section \<open>Response post-processing\<close>

definition artifacts :: "string list" where
  "artifacts =
     [''<MID>'', ''</MID>'', ''<SUF>'', ''</SUF>'', ''<PRE>'', ''</PRE>'',
      ''```python'', ''```javascript'', ''```typescript'', ''```'',
      ''<code>'', ''</code>'']"

text \<open>\<^verbatim>\<open>for artifact in artifacts: completion = completion.replace(artifact, '')\<close>\<close>

definition remove_artifacts :: "string \<Rightarrow> string" where
  "remove_artifacts completion = foldl replace completion artifacts"

text \<open>
  The loop over the lines, with \<open>cleaned_lines\<close> as accumulator; the \<^verbatim>\<open>break\<close> returns the
  accumulator at once.
\<close>

fun clean_loop :: "string list \<Rightarrow> string list \<Rightarrow> string list" where
  "clean_loop cleaned_lines [] = cleaned_lines"
| "clean_loop cleaned_lines (line # lines) =
     (if strip line \<noteq> [] then clean_loop (cleaned_lines @ [line]) lines
      else if cleaned_lines \<noteq> [] \<and> strip (last cleaned_lines) \<noteq> [] then cleaned_lines @ [[]]
      else clean_loop cleaned_lines lines)"

definition post_process_completion :: "string \<Rightarrow> string" where
  "post_process_completion completion =
     strip (join_nl (clean_loop [] (split_nl (remove_artifacts (strip completion)))))"

text \<open>A line the loop treats as empty: \<^verbatim>\<open>line.strip()\<close> is falsy.\<close>

definition blank :: "string \<Rightarrow> bool" where
  "blank l = (\<forall>c\<in>set l. isspace c)"

section \<open>Data model (models.py)\<close>

record CompletionRequest =
  code :: string
  language :: string
  position :: "(string \<times> int) list"
  filename :: string
  max_tokens :: "int option"
  temperature :: "real option"

record CompletionResponse =
  suggestion :: string
  confidence :: real
  processing_time :: real

record HealthResponse =
  status :: string
  health_model_loaded :: bool
  server_version :: string
  uptime :: real

record ServerConfig =
  host :: string
  port :: int
  cfg_model_name :: string
  cfg_max_tokens :: int
  cfg_temperature :: real
  debug :: bool

text \<open>\<^verbatim>\<open>ServerConfig()\<close> with the dataclass defaults.\<close>

definition ServerConfig_default :: ServerConfig where
  "ServerConfig_default =
     \<lparr>host = ''127.0.0.1'', port = 8000, cfg_model_name = ''codellama:7b-code'',
      cfg_max_tokens = 100, cfg_temperature = 0.1, debug = False\<rparr>"

section \<open>The backend client and the world\<close>

text \<open>
  The options dictionary of a generate call; \<open>top_p\<close> and \<open>stop\<close> are absent from the
  dictionary of the validation call in \<open>initialize\<close>.
\<close>

record options =
  num_predict :: int
  opt_temperature :: real
  top_p :: "real option"
  stop :: "string list option"

datatype call =
  ListCall
| PullCall string
| GenerateCall string string options

datatype exn = RuntimeError string | ClientError string

fun str_exn :: "exn \<Rightarrow> string" where
  "str_exn (RuntimeError m) = m"
| "str_exn (ClientError m) = m"

text \<open>
  The Ollama client is outside the repository. Its replies are a function of the calls made
  so far and of the arguments of the call: a list of model names, the outcome of a pull, the
  \<^verbatim>\<open>response['response']\<close> text of a generation, or the exception raised.
\<close>

record backend =
  list_reply :: "call list \<Rightarrow> exn + string list"
  pull_reply :: "call list \<Rightarrow> string \<Rightarrow> exn + unit"
  generate_reply :: "call list \<Rightarrow> string \<Rightarrow> string \<Rightarrow> options \<Rightarrow> exn + string"

text \<open>
  The world: the wall clock that \<^verbatim>\<open>time.time()\<close> reads and the log of the calls made to the
  client. The time each step of a completion takes is given from outside.
\<close>

record world =
  now :: real
  calls :: "call list"

record timing =
  t_prepare :: real
  t_generate :: real
  t_post :: real

section \<open>CodeLlamaInference (inference.py)\<close>

record CodeLlamaInference =
  config :: ServerConfig
  model_name :: string
  model_loaded :: bool

definition CodeLlamaInference_init :: "ServerConfig \<Rightarrow> CodeLlamaInference" where
  "CodeLlamaInference_init cfg =
     \<lparr>config = cfg, model_name = cfg_model_name cfg, model_loaded = False\<rparr>"

definition is_model_loaded :: "CodeLlamaInference \<Rightarrow> bool" where
  "is_model_loaded self = model_loaded self"

text \<open>Python's \<^verbatim>\<open>x or d\<close> on an optional number: \<open>None\<close> and zero are both falsy.\<close>

definition or_int :: "int option \<Rightarrow> int \<Rightarrow> int" where
  "or_int x d = (case x of None \<Rightarrow> d | Some v \<Rightarrow> if v = 0 then d else v)"

definition or_float :: "real option \<Rightarrow> real \<Rightarrow> real" where
  "or_float x d = (case x of None \<Rightarrow> d | Some v \<Rightarrow> if v = 0 then d else v)"

definition prepare_prompt :: "CompletionRequest \<Rightarrow> string" where
  "prepare_prompt request = ''<PRE> '' @ filename request @ [nl] @ code request @ ''<SUF><MID>''"

definition pull_model :: "backend \<Rightarrow> CodeLlamaInference \<Rightarrow> world \<Rightarrow> bool \<times> world" where
  "pull_model b self w =
     (let w' = w\<lparr>calls := calls w @ [PullCall (model_name self)]\<rparr>
      in case pull_reply b (calls w) (model_name self) of
           Inl e \<Rightarrow> (False, w')
         | Inr u \<Rightarrow> (True, w'))"

definition validation_options :: options where
  "validation_options = \<lparr>num_predict = 10, opt_temperature = 0.1, top_p = None, stop = None\<rparr>"

text \<open>The body of the \<^verbatim>\<open>try\<close> block of \<open>initialize\<close>; the value of \<open>pull_model\<close> is dropped.\<close>

definition initialize_try :: "backend \<Rightarrow> CodeLlamaInference \<Rightarrow> world \<Rightarrow> (exn + unit) \<times> world" where
  "initialize_try b self w =
     (let w1 = w\<lparr>calls := calls w @ [ListCall]\<rparr>
      in case list_reply b (calls w) of
           Inl e \<Rightarrow> (Inl e, w1)
         | Inr model_names \<Rightarrow>
             (let w2 = (if model_name self \<notin> set model_names then snd (pull_model b self w1) else w1);
                  w3 = w2\<lparr>calls := calls w2 @
                         [GenerateCall (model_name self) ''def hello():'' validation_options]\<rparr>
              in case generate_reply b (calls w2) (model_name self) ''def hello():'' validation_options of
                   Inl e \<Rightarrow> (Inl e, w3)
                 | Inr test_response \<Rightarrow> (Inr (), w3)))"

text \<open>\<open>initialize\<close>: what it raises or returns, the manager afterwards, the world afterwards.\<close>

definition initialize ::
  "backend \<Rightarrow> CodeLlamaInference \<Rightarrow> world \<Rightarrow> (exn + bool) \<times> CodeLlamaInference \<times> world" where
  "initialize b self w =
     (case initialize_try b self w of
        (Inr u, w') \<Rightarrow> (Inr True, self\<lparr>model_loaded := True\<rparr>, w')
      | (Inl e, w') \<Rightarrow> (Inr False, self\<lparr>model_loaded := False\<rparr>, w'))"

definition completion_options :: "CodeLlamaInference \<Rightarrow> CompletionRequest \<Rightarrow> options" where
  "completion_options self request =
     \<lparr>num_predict = or_int (max_tokens request) (cfg_max_tokens (config self)),
      opt_temperature = or_float (temperature request) (cfg_temperature (config self)),
      top_p = Some 0.9,
      stop = Some [[nl, nl], ''```'', ''</code>'']\<rparr>"

text \<open>
  \<open>generate_completion\<close>: \<open>start_time\<close> is read first, the second reading of the clock comes
  after the reply has been stripped and before the post-processing.
\<close>

definition generate_completion ::
  "backend \<Rightarrow> timing \<Rightarrow> CodeLlamaInference \<Rightarrow> CompletionRequest \<Rightarrow> world \<Rightarrow>
     (exn + string \<times> real) \<times> world" where
  "generate_completion b tm self request w =
     (if \<not> model_loaded self then (Inl (RuntimeError ''Model not loaded''), w)
      else
        (let start_time = now w;
             prompt = prepare_prompt request;
             w1 = w\<lparr>now := now w + t_prepare tm\<rparr>;
             opts = completion_options self request;
             w2 = w1\<lparr>now := now w1 + t_generate tm,
                    calls := calls w1 @ [GenerateCall (model_name self) prompt opts]\<rparr>
         in case generate_reply b (calls w1) (model_name self) prompt opts of
              Inl e \<Rightarrow> (Inl e, w2)
            | Inr response \<Rightarrow>
                (let completion = strip response;
                     processing_time = now w2 - start_time;
                     completion' = post_process_completion completion;
                     w3 = w2\<lparr>now := now w2 + t_post tm\<rparr>
                 in (Inr (completion', processing_time), w3))))"

section \<open>The HTTP adapter (main.py)\<close>

datatype HTTPException = HTTPException (status_code: nat) (detail: string)

text \<open>A handler that returns its body is answered with status 200.\<close>

fun http_status :: "HTTPException + 'a \<Rightarrow> nat" where
  "http_status (Inl e) = status_code e"
| "http_status (Inr body) = 200"

record server =
  inference_engine :: "CodeLlamaInference option"
  start_time :: real

definition health_check :: "server \<Rightarrow> world \<Rightarrow> HTTPException + HealthResponse" where
  "health_check srv w =
     Inr \<lparr>status = ''healthy'',
          health_model_loaded =
            (case inference_engine srv of None \<Rightarrow> False | Some e \<Rightarrow> is_model_loaded e),
          server_version = ''0.1.0'',
          uptime = now w - start_time srv\<rparr>"

definition estimate_confidence :: "string \<Rightarrow> real \<Rightarrow> real" where
  "estimate_confidence completion pt =
     min 0.95 (real (length completion) / 100.0 * 0.8 + (1.0 / max pt 0.1) * 0.2)"

definition get_completion ::
  "backend \<Rightarrow> timing \<Rightarrow> server \<Rightarrow> CompletionRequest \<Rightarrow> world \<Rightarrow>
     (HTTPException + CompletionResponse) \<times> world" where
  "get_completion b tm srv request w =
     (case inference_engine srv of
        None \<Rightarrow> (Inl (HTTPException 503 ''Inference engine not initialized''), w)
      | Some e \<Rightarrow>
          if \<not> is_model_loaded e then (Inl (HTTPException 503 ''Model not loaded''), w)
          else
            (case generate_completion b tm e request w of
               (Inl ex, w') \<Rightarrow>
                 (Inl (HTTPException 500 (''Failed to generate completion: '' @ str_exn ex)), w')
             | (Inr (completion, pt), w') \<Rightarrow>
                 (Inr \<lparr>suggestion = completion,
                       confidence = estimate_confidence completion pt,
                       processing_time = pt\<rparr>, w')))"

section \<open>Fixtures\<close>

text \<open>A client whose replies do not depend on the history.\<close>

definition fixed_backend :: "exn + string list \<Rightarrow> exn + unit \<Rightarrow> exn + string \<Rightarrow> backend" where
  "fixed_backend l p g =
     \<lparr>list_reply = (\<lambda>h. l), pull_reply = (\<lambda>h n. p), generate_reply = (\<lambda>h m q os. g)\<rparr>"

text \<open>The request of \<^verbatim>\<open>test_completion_endpoint_without_model\<close>, with the defaults of the model.\<close>

definition test_request :: CompletionRequest where
  "test_request =
     \<lparr>code = ''def hello():'', language = ''python'',
      position = [(''line'', 0), (''character'', 12)], filename = ''test.py'',
      max_tokens = Some 100, temperature = Some 0.1\<rparr>"

definition ready_engine :: CodeLlamaInference where
  "ready_engine = (CodeLlamaInference_init ServerConfig_default)\<lparr>model_loaded := True\<rparr>"

definition world0 :: world where
  "world0 = \<lparr>now = 0, calls = []\<rparr>"

definition demo_backend :: backend where
  "demo_backend = fixed_backend (Inr []) (Inr ()) (Inr (replicate 50 (CHR ''x'')))"

definition demo_timing :: timing where
  "demo_timing = \<lparr>t_prepare = 0, t_generate = 0.5, t_post = 1\<rparr>"

definition demo_server :: server where
  "demo_server = \<lparr>inference_engine = Some ready_engine, start_time = 0\<rparr>"

definition offline_backend :: backend where
  "offline_backend =
     fixed_backend (Inr []) (Inl (ClientError ''pull failed'')) (Inl (ClientError ''model not found''))"

definition stale_list_backend :: backend where
  "stale_list_backend = fixed_backend (Inr []) (Inl (ClientError ''pull failed'')) (Inr ''ok'')"

section \<open>Stripping and splitting\<close>

lemma isspace_nl: "isspace nl"
  by (simp add: isspace_def nl_def)

lemma lstrip_Nil_iff: "lstrip s = [] \<longleftrightarrow> (\<forall>c\<in>set s. isspace c)"
  by (simp add: lstrip_def dropWhile_eq_Nil_conv)

lemma rstrip_Nil_iff: "rstrip s = [] \<longleftrightarrow> (\<forall>c\<in>set s. isspace c)"
  by (simp add: rstrip_def dropWhile_eq_Nil_conv)

lemma rstrip_snoc: "rstrip (s @ [c]) = (if isspace c then rstrip s else s @ [c])"
  by (simp add: rstrip_def)

lemma lstrip_Cons: "lstrip (c # s) = (if isspace c then lstrip s else c # s)"
  by (simp add: lstrip_def)

lemma hd_lstrip: "lstrip s \<noteq> [] \<Longrightarrow> \<not> isspace (hd (lstrip s))"
  unfolding lstrip_def by (rule hd_dropWhile)

lemma last_rstrip: "rstrip s \<noteq> [] \<Longrightarrow> \<not> isspace (last (rstrip s))"
  unfolding rstrip_def by (simp add: last_rev hd_dropWhile)

lemma rstrip_keeps_hd: "\<not> isspace (hd s) \<Longrightarrow> s \<noteq> [] \<Longrightarrow> rstrip s \<noteq> [] \<and> hd (rstrip s) = hd s"
proof (induction s rule: rev_induct)
  case Nil
  then show ?case by simp
next
  case (snoc c s)
  show ?case
  proof (cases "s = []")
    case True
    with snoc.prems show ?thesis by (simp add: rstrip_def)
  next
    case False
    with snoc show ?thesis by (simp add: rstrip_snoc)
  qed
qed

lemma strip_Nil_iff: "strip s = [] \<longleftrightarrow> (\<forall>c\<in>set s. isspace c)"
proof (cases "lstrip s = []")
  case True
  then have "strip s = []" by (simp add: strip_def rstrip_def)
  moreover from True have "\<forall>c\<in>set s. isspace c" by (simp only: lstrip_Nil_iff)
  ultimately show ?thesis by simp
next
  case False
  then have "rstrip (lstrip s) \<noteq> []"
    using rstrip_keeps_hd [of "lstrip s"] hd_lstrip [of s] by simp
  with False show ?thesis by (simp add: strip_def lstrip_Nil_iff)
qed

lemma strip_ends: "strip s \<noteq> [] \<Longrightarrow> \<not> isspace (hd (strip s)) \<and> \<not> isspace (last (strip s))"
proof -
  assume ne: "strip s \<noteq> []"
  then have l: "lstrip s \<noteq> []" by (auto simp: strip_def rstrip_def)
  then have "\<not> isspace (hd (lstrip s))" by (rule hd_lstrip)
  with l have "hd (rstrip (lstrip s)) = hd (lstrip s)" using rstrip_keeps_hd by blast
  with \<open>\<not> isspace (hd (lstrip s))\<close> last_rstrip [of "lstrip s"] ne
  show ?thesis by (simp add: strip_def)
qed

lemma split_nl_ne: "split_nl s \<noteq> []"
  by (induction s) (auto split: list.splits)

lemma split_nl_nlfree: "l \<in> set (split_nl s) \<Longrightarrow> nl \<notin> set l"
  by (induction s arbitrary: l) (auto split: list.splits if_splits)

lemma split_nlfree_id: "nl \<notin> set x \<Longrightarrow> split_nl x = [x]"
  by (induction x) auto

lemma split_append_nl: "nl \<notin> set x \<Longrightarrow> split_nl (x @ nl # r) = x # split_nl r"
  by (induction x) auto

lemma split_join: "ls \<noteq> [] \<Longrightarrow> \<forall>l\<in>set ls. nl \<notin> set l \<Longrightarrow> split_nl (join_nl ls) = ls"
  by (induction ls rule: join_nl.induct) (auto simp: split_nlfree_id split_append_nl)

lemma split_nl_snoc:
  "split_nl (xs @ [c]) =
     (if c = nl then split_nl xs @ [[]] else butlast (split_nl xs) @ [last (split_nl xs) @ [c]])"
  by (induction xs) (auto simp: split_nl_ne split: list.splits)

section \<open>The lines of a post-processed completion\<close>

lemma lines_lstrip:
  "\<forall>l\<in>set (split_nl t). \<not> blank l \<Longrightarrow> \<forall>l\<in>set (split_nl (lstrip t)). \<not> blank l"
proof (induction t)
  case Nil
  then show ?case by (simp add: blank_def)
next
  case (Cons c cs)
  show ?case
  proof (cases "isspace c")
    case False
    with Cons.prems show ?thesis by (simp add: lstrip_Cons)
  next
    case True
    from Cons.prems have "c \<noteq> nl" by (auto simp: blank_def)
    moreover obtain l ls where s: "split_nl cs = l # ls"
      using split_nl_ne [of cs] by (cases "split_nl cs") auto
    ultimately have "\<forall>l\<in>set (split_nl cs). \<not> blank l"
      using Cons.prems True by (auto simp: blank_def)
    with Cons.IH True show ?thesis by (simp add: lstrip_Cons)
  qed
qed

lemma lines_rstrip:
  "\<forall>l\<in>set (split_nl t). \<not> blank l \<Longrightarrow> \<forall>l\<in>set (split_nl (rstrip t)). \<not> blank l"
proof (induction t rule: rev_induct)
  case Nil
  then show ?case by (simp add: blank_def)
next
  case (snoc c cs)
  show ?case
  proof (cases "isspace c")
    case False
    with snoc.prems show ?thesis by (simp add: rstrip_snoc)
  next
    case True
    have ne: "split_nl cs \<noteq> []" by (rule split_nl_ne)
    from snoc.prems have "c \<noteq> nl" by (auto simp: split_nl_snoc blank_def)
    with snoc.prems have a: "\<forall>l\<in>set (butlast (split_nl cs) @ [last (split_nl cs) @ [c]]). \<not> blank l"
      by (simp add: split_nl_snoc)
    then have "\<not> blank (last (split_nl cs))" using True by (auto simp: blank_def)
    moreover from a have "\<forall>l\<in>set (butlast (split_nl cs)). \<not> blank l" by simp
    ultimately have "\<forall>l\<in>set (butlast (split_nl cs) @ [last (split_nl cs)]). \<not> blank l" by simp
    with ne have "\<forall>l\<in>set (split_nl cs). \<not> blank l" by simp
    with snoc.IH True show ?thesis by (simp add: rstrip_snoc)
  qed
qed

lemma lines_strip:
  "\<forall>l\<in>set (split_nl t). \<not> blank l \<Longrightarrow> \<forall>l\<in>set (split_nl (strip t)). \<not> blank l"
  unfolding strip_def by (intro lines_rstrip lines_lstrip)

lemma strip_blank: "strip l \<noteq> [] \<longleftrightarrow> \<not> blank l"
  by (simp add: strip_Nil_iff blank_def)

lemma clean_loop_shape:
  "\<forall>l\<in>set acc. \<not> blank l \<and> nl \<notin> set l \<Longrightarrow> \<forall>l\<in>set xs. nl \<notin> set l \<Longrightarrow>
   \<exists>ls. (\<forall>l\<in>set ls. \<not> blank l \<and> nl \<notin> set l) \<and>
        (clean_loop acc xs = ls \<or> ls \<noteq> [] \<and> clean_loop acc xs = ls @ [[]])"
proof (induction xs arbitrary: acc)
  case Nil
  then show ?case by auto
next
  case (Cons x xs)
  show ?case
  proof (cases "blank x")
    case False
    with Cons.prems have "\<forall>l\<in>set (acc @ [x]). \<not> blank l \<and> nl \<notin> set l" by simp
    moreover from Cons.prems have "\<forall>l\<in>set xs. nl \<notin> set l" by simp
    ultimately show ?thesis using Cons.IH [of "acc @ [x]"] False by (simp add: strip_blank)
  next
    case True
    show ?thesis
    proof (cases "acc \<noteq> [] \<and> strip (last acc) \<noteq> []")
      case True
      with \<open>blank x\<close> Cons.prems show ?thesis
        by (intro exI [of _ acc]) (simp add: strip_blank)
    next
      case False
      with \<open>blank x\<close> have "clean_loop acc (x # xs) = clean_loop acc xs"
        using strip_blank [of x] by auto
      with Cons show ?thesis by simp
    qed
  qed
qed

lemma join_nl_snoc_empty: "ls \<noteq> [] \<Longrightarrow> join_nl (ls @ [[]]) = join_nl ls @ [nl]"
  by (induction ls rule: join_nl.induct) auto

lemma strip_snoc_nl: "\<not> blank t \<Longrightarrow> strip (t @ [nl]) = strip t"
proof -
  assume "\<not> blank t"
  then obtain c where "c \<in> set t" "\<not> isspace c" by (auto simp: blank_def)
  then have "lstrip (t @ [nl]) = lstrip t @ [nl]"
    unfolding lstrip_def by (rule dropWhile_append1)
  then show ?thesis by (simp add: strip_def rstrip_snoc isspace_nl)
qed

lemma set_join_nl: "l \<in> set ls \<Longrightarrow> set l \<subseteq> set (join_nl ls)"
  by (induction ls rule: join_nl.induct) auto

lemma join_not_blank: "ls \<noteq> [] \<Longrightarrow> \<forall>l\<in>set ls. \<not> blank l \<Longrightarrow> \<not> blank (join_nl ls)"
proof -
  assume "ls \<noteq> []" and a: "\<forall>l\<in>set ls. \<not> blank l"
  then have h: "hd ls \<in> set ls" by simp
  with a have "\<not> blank (hd ls)" by blast
  with set_join_nl [OF h] show ?thesis by (auto simp: blank_def)
qed

lemma lines_strip_join:
  assumes "\<forall>l\<in>set ls. \<not> blank l \<and> nl \<notin> set l"
  shows "ls = [] \<or> (\<forall>l\<in>set (split_nl (strip (join_nl ls))). \<not> blank l)"
proof (cases "ls = []")
  case True
  then show ?thesis by simp
next
  case False
  with assms have "split_nl (join_nl ls) = ls" by (simp add: split_join)
  with assms have "\<forall>l\<in>set (split_nl (join_nl ls)). \<not> blank l" by simp
  then show ?thesis by (simp add: lines_strip)
qed

lemma post_lines:
  "post_process_completion s = [] \<or>
   (\<forall>l\<in>set (split_nl (post_process_completion s)). \<not> blank l)"
proof -
  let ?xs = "split_nl (remove_artifacts (strip s))"
  have "\<forall>l\<in>set ?xs. nl \<notin> set l" by (simp add: split_nl_nlfree)
  then obtain ls where ls: "\<forall>l\<in>set ls. \<not> blank l \<and> nl \<notin> set l"
    and c: "clean_loop [] ?xs = ls \<or> ls \<noteq> [] \<and> clean_loop [] ?xs = ls @ [[]]"
    using clean_loop_shape [of "[]" ?xs] by auto
  have "post_process_completion s = strip (join_nl ls)"
  proof (cases "clean_loop [] ?xs = ls")
    case True
    then show ?thesis by (simp add: post_process_completion_def)
  next
    case False
    with c have ne: "ls \<noteq> []" and e: "clean_loop [] ?xs = ls @ [[]]" by auto
    from ne ls have "\<not> blank (join_nl ls)" by (simp add: join_not_blank)
    with ne e show ?thesis
      by (simp add: post_process_completion_def join_nl_snoc_empty strip_snoc_nl)
  qed
  moreover have "strip (join_nl ls) = [] \<or> (\<forall>l\<in>set (split_nl (strip (join_nl ls))). \<not> blank l)"
    using lines_strip_join [OF ls] by (auto simp: strip_def lstrip_def rstrip_def)
  ultimately show ?thesis by simp
qed

section \<open>Evaluating the fixtures\<close>

lemmas eval_defs =
  post_process_completion_def remove_artifacts_def artifacts_def strip_def lstrip_def
  rstrip_def isspace_def startswith_def nl_def

lemma post_process_xs:
  "post_process_completion (strip (replicate 50 (CHR ''x''))) = replicate 50 (CHR ''x'')"
  by code_simp

lemma demo_generate:
  "generate_completion demo_backend demo_timing ready_engine test_request world0 =
     (Inr (replicate 50 (CHR ''x''), 0.5),
      \<lparr>now = 1.5, calls = [GenerateCall (model_name ready_engine) (prepare_prompt test_request)
           (completion_options ready_engine test_request)]\<rparr>)"
  by (simp add: generate_completion_def demo_backend_def fixed_backend_def demo_timing_def
      ready_engine_def world0_def Let_def post_process_xs CodeLlamaInference_init_def)

lemma demo_run:
  "get_completion demo_backend demo_timing demo_server test_request world0 =
     (Inr \<lparr>suggestion = replicate 50 (CHR ''x''), confidence = estimate_confidence (replicate 50 (CHR ''x'')) 0.5,
           processing_time = 0.5\<rparr>,
      \<lparr>now = 1.5, calls = [GenerateCall (model_name ready_engine) (prepare_prompt test_request)
           (completion_options ready_engine test_request)]\<rparr>)"
  unfolding get_completion_def demo_generate
  by (simp add: demo_server_def is_model_loaded_def ready_engine_def demo_generate [unfolded ready_engine_def])

section \<open>What a successful call returns\<close>

lemma get_completion_Inr:
  assumes "get_completion b tm srv request w = (Inr r, w')"
  shows "\<exists>e c pt. inference_engine srv = Some e \<and> model_loaded e
     \<and> generate_completion b tm e request w = (Inr (c, pt), w')
     \<and> r = \<lparr>suggestion = c, confidence = estimate_confidence c pt, processing_time = pt\<rparr>"
  using assms
  by (auto simp: get_completion_def is_model_loaded_def split: option.splits if_splits prod.splits sum.splits)

lemma generate_completion_Inr:
  assumes "generate_completion b tm e request w = (Inr (c, pt), w')"
  shows "model_loaded e \<and> pt = t_prepare tm + t_generate tm
    \<and> now w' = now w + t_prepare tm + t_generate tm + t_post tm
    \<and> calls w' = calls w @ [GenerateCall (model_name e) (prepare_prompt request) (completion_options e request)]"
  using assms
  by (auto simp: generate_completion_def Let_def split: if_splits sum.splits)

lemma estimate_confidence_range: "0 \<le> estimate_confidence c pt \<and> estimate_confidence c pt \<le> 0.95"
proof -
  have "0 < max pt 0.1" by simp
  then have "0 \<le> (1 / max pt 0.1) * 0.2" by simp
  moreover have "0 \<le> real (length c) / 100 * 0.8" by simp
  ultimately have "0 \<le> real (length c) / 100 * 0.8 + (1 / max pt 0.1) * 0.2"
    by (rule add_nonneg_nonneg [rotated])
  then have "0 \<le> estimate_confidence c pt"
    unfolding estimate_confidence_def by (simp only: min_def split: if_splits) simp
  moreover have "estimate_confidence c pt \<le> 0.95"
    unfolding estimate_confidence_def by (rule min.cobounded1)
  ultimately show ?thesis by blast
qed

lemma initialize_absent_pull_failed:
  assumes "list_reply b (calls w) = Inr names" and "model_name self \<notin> set names"
    and "pull_reply b (calls w @ [ListCall]) (model_name self) = Inl e"
  shows "initialize b self w =
     (Inr (\<not> isl (generate_reply b (calls w @ [ListCall, PullCall (model_name self)])
                   (model_name self) ''def hello():'' validation_options)),
      self\<lparr>model_loaded := \<not> isl (generate_reply b (calls w @ [ListCall, PullCall (model_name self)])
                   (model_name self) ''def hello():'' validation_options)\<rparr>,
      w\<lparr>calls := calls w @ [ListCall, PullCall (model_name self),
             GenerateCall (model_name self) ''def hello():'' validation_options]\<rparr>)"
  using assms
  by (simp add: initialize_def initialize_try_def pull_model_def Let_def split: sum.splits)

lemma post_process_strip: "post_process_completion s = strip (join_nl (clean_loop [] (split_nl (remove_artifacts (strip s)))))"
  by (simp add: post_process_completion_def)

section \<open>The claims\<close>

text \<open>
  C1. While \<open>model_loaded\<close> is false, \<open>generate_completion\<close> fails with
  \<^verbatim>\<open>RuntimeError("Model not loaded")\<close> and leaves the world as it was, so the log of client
  calls gains no entry; the \<^verbatim>\<open>/complete\<close> handler answers the same request with status 503,
  again without touching the world.
\<close>

theorem not_ready_fails_without_backend_call:
  assumes "\<not> model_loaded e"
  shows "generate_completion b tm e request w = (Inl (RuntimeError ''Model not loaded''), w)
    \<and> calls (snd (generate_completion b tm e request w)) = calls w
    \<and> get_completion b tm (srv\<lparr>inference_engine := Some e\<rparr>) request w =
        (Inl (HTTPException 503 ''Model not loaded''), w)
    \<and> http_status (fst (get_completion b tm (srv\<lparr>inference_engine := Some e\<rparr>) request w)) = 503"
  using assms by (simp add: generate_completion_def get_completion_def is_model_loaded_def)

text \<open>
  C1 at a concrete input: a freshly constructed manager, which is not loaded.
\<close>

theorem not_ready_fails_without_backend_call_witness:
  "\<not> model_loaded (CodeLlamaInference_init ServerConfig_default)
   \<and> generate_completion (fixed_backend (Inr []) (Inr ()) (Inr ''x'')) \<lparr>t_prepare = 0, t_generate = 1, t_post = 0\<rparr>
       (CodeLlamaInference_init ServerConfig_default) test_request world0 =
      (Inl (RuntimeError ''Model not loaded''), world0)
   \<and> http_status (fst (get_completion (fixed_backend (Inr []) (Inr ()) (Inr ''x'')) \<lparr>t_prepare = 0, t_generate = 1, t_post = 0\<rparr>
       \<lparr>inference_engine = Some (CodeLlamaInference_init ServerConfig_default), start_time = 0\<rparr> test_request world0)) = 503"
proof -
  have h: "\<not> model_loaded (CodeLlamaInference_init ServerConfig_default)"
    by (simp add: CodeLlamaInference_init_def)
  show ?thesis
    using h not_ready_fails_without_backend_call [OF h, of "fixed_backend (Inr []) (Inr ()) (Inr ''x'')"
      "\<lparr>t_prepare = 0, t_generate = 1, t_post = 0\<rparr>" test_request world0
      "\<lparr>inference_engine = None, start_time = 0\<rparr>"]
    by simp
qed

text \<open>
  C2. Whenever the \<^verbatim>\<open>/complete\<close> handler returns a response, its confidence is
  \<open>min 0.95 (len / 100 * 0.8 + (1 / max t 0.1) * 0.2)\<close> of its own suggestion and processing
  time; with a suggestion of length 50 and a processing time of 0.5 it is 0.8.
\<close>

theorem confidence_formula:
  assumes "get_completion b tm srv request w = (Inr r, w')"
  shows "confidence r =
      min 0.95 (real (length (suggestion r)) / 100 * 0.8 + (1 / max (processing_time r) 0.1) * 0.2)
    \<and> (length (suggestion r) = 50 \<and> processing_time r = 0.5 \<longrightarrow> confidence r = 0.8)"
proof -
  from get_completion_Inr [OF assms] obtain c pt where
    r: "r = \<lparr>suggestion = c, confidence = estimate_confidence c pt, processing_time = pt\<rparr>" by blast
  then have f: "confidence r =
      min 0.95 (real (length (suggestion r)) / 100 * 0.8 + (1 / max (processing_time r) 0.1) * 0.2)"
    by (simp add: estimate_confidence_def)
  moreover have "confidence r = 0.8" if "length (suggestion r) = 50" and "processing_time r = 0.5"
  proof -
    have "confidence r = min 0.95 (real 50 / 100 * 0.8 + (1 / max 0.5 0.1) * 0.2)"
      using f that by (simp only:)
    then show ?thesis by simp
  qed
  ultimately show ?thesis by blast
qed

text \<open>
  C2 at a concrete input: a client that returns fifty characters after half a second.
\<close>

theorem confidence_formula_witness:
  "get_completion demo_backend demo_timing demo_server test_request world0 =
     (Inr \<lparr>suggestion = replicate 50 (CHR ''x''), confidence = estimate_confidence (replicate 50 (CHR ''x'')) 0.5,
           processing_time = 0.5\<rparr>,
      \<lparr>now = 1.5, calls = [GenerateCall (model_name ready_engine) (prepare_prompt test_request)
           (completion_options ready_engine test_request)]\<rparr>)
   \<and> estimate_confidence (replicate 50 (CHR ''x'')) 0.5 = 0.8"
  using confidence_formula [OF demo_run] demo_run by simp

text \<open>
  C3. A request that sets \<open>temperature = 0.0\<close> is not forwarded with temperature 0.0: the
  fallback is Python's \<^verbatim>\<open>or\<close>, for which zero is falsy, so whatever the client replies the
  call it received carries the configured default 0.1.
\<close>

theorem zero_temperature_replaced_by_default:
  "calls (snd (generate_completion b tm ready_engine (test_request\<lparr>temperature := Some 0\<rparr>) world0)) =
     [GenerateCall ''codellama:7b-code'' (''<PRE> test.py'' @ [nl] @ ''def hello():<SUF><MID>'')
        \<lparr>num_predict = 100, opt_temperature = 0.1, top_p = Some 0.9,
         stop = Some [[nl, nl], ''```'', ''</code>'']\<rparr>]"
  by (simp add: generate_completion_def Let_def ready_engine_def CodeLlamaInference_init_def
      ServerConfig_default_def test_request_def world0_def completion_options_def or_int_def
      or_float_def prepare_prompt_def split: sum.splits)

text \<open>
  C4, as the code has it. The processing time returned by a successful
  \<open>generate_completion\<close> is the time from the first reading of the clock to the second one, taken
  once the reply of the client has been stripped: the time of building the prompt and of the
  generate call. The post-processing runs after the second reading, and its time is the rest of
  what elapses over the call.
\<close>

theorem processing_time_excludes_post_processing:
  assumes "generate_completion b tm e request w = (Inr (c, pt), w')"
  shows "pt = t_prepare tm + t_generate tm \<and> now w' - now w = pt + t_post tm"
  using generate_completion_Inr [OF assms] by simp

text \<open>
  C4 as amended, at a concrete input.
\<close>

theorem processing_time_excludes_post_processing_witness:
  "generate_completion demo_backend demo_timing ready_engine test_request world0 =
     (Inr (replicate 50 (CHR ''x''), 0.5),
      \<lparr>now = 1.5, calls = [GenerateCall (model_name ready_engine) (prepare_prompt test_request)
           (completion_options ready_engine test_request)]\<rparr>)
   \<and> (0.5 :: real) = t_prepare demo_timing + t_generate demo_timing
   \<and> (1.5 :: real) - now world0 = 0.5 + t_post demo_timing"
  using processing_time_excludes_post_processing [OF demo_generate] demo_generate by simp

text \<open>
  C4 as stated fails: with a generate call of half a second and a post-processing of one
  second, the call lasts 1.5 seconds and reports 0.5.
\<close>

theorem processing_time_full_path_counterexample:
  "fst (generate_completion demo_backend demo_timing ready_engine test_request world0) =
     Inr (replicate 50 (CHR ''x''), 0.5)
   \<and> now (snd (generate_completion demo_backend demo_timing ready_engine test_request world0))
       - now world0 = 1.5"
  unfolding demo_generate by (simp add: world0_def)

text \<open>
  C5. One pass of \<^verbatim>\<open>replace\<close> per artifact does not remove every artifact: taking
  \<^verbatim>\<open><MID>\<close> out of the middle of \<^verbatim>\<open><M<MID>ID>\<close> joins the two halves into a new
  \<^verbatim>\<open><MID>\<close>, which no later pass removes and which is returned.
\<close>

theorem nested_artifact_survives:
  "post_process_completion ''<M<MID>ID>'' = ''<MID>'' \<and> ''<MID>'' \<in> set artifacts"
  by (simp add: eval_defs)

text \<open>
  C6. On that same input the post-processor is not idempotent: the first application returns
  \<^verbatim>\<open><MID>\<close>, the second one the empty string.
\<close>

theorem post_process_not_idempotent_on_nested_artifact:
  "post_process_completion (post_process_completion ''<M<MID>ID>'') = []
   \<and> post_process_completion ''<M<MID>ID>'' \<noteq> []"
  by (simp add: eval_defs)

text \<open>
  C7. The prompt is \<^verbatim>\<open>"<PRE> " + filename + "\n" + code + "<SUF><MID>"\<close>, whatever the
  language, the position, the token limit and the temperature of the request are.
\<close>

theorem prompt_is_function_of_code_and_filename:
  "prepare_prompt \<lparr>code = c, language = l, position = p, filename = f, max_tokens = m, temperature = t\<rparr> =
     ''<PRE> '' @ f @ [CHR 0x0A] @ c @ ''<SUF><MID>''"
  by (simp add: prepare_prompt_def nl_def)

text \<open>
  C8. When the steps of a completion take no negative time, every response the
  \<^verbatim>\<open>/complete\<close> handler returns has a confidence between 0 and 0.95 and a processing time of
  at least 0.
\<close>

theorem response_bounds:
  assumes "0 \<le> t_prepare tm" and "0 \<le> t_generate tm"
    and "get_completion b tm srv request w = (Inr r, w')"
  shows "0 \<le> confidence r \<and> confidence r \<le> 0.95 \<and> 0 \<le> processing_time r"
proof -
  from get_completion_Inr [OF assms(3)] obtain e c pt where
    g: "generate_completion b tm e request w = (Inr (c, pt), w')" and
    r: "r = \<lparr>suggestion = c, confidence = estimate_confidence c pt, processing_time = pt\<rparr>" by blast
  from generate_completion_Inr [OF g] assms(1,2) have "0 \<le> pt" by simp
  with r estimate_confidence_range [of c pt] show ?thesis by simp
qed

text \<open>
  C8 at a concrete input.
\<close>

theorem response_bounds_witness:
  "0 \<le> t_prepare demo_timing \<and> 0 \<le> t_generate demo_timing
   \<and> get_completion demo_backend demo_timing demo_server test_request world0 =
     (Inr \<lparr>suggestion = replicate 50 (CHR ''x''), confidence = estimate_confidence (replicate 50 (CHR ''x'')) 0.5,
           processing_time = 0.5\<rparr>,
      \<lparr>now = 1.5, calls = [GenerateCall (model_name ready_engine) (prepare_prompt test_request)
           (completion_options ready_engine test_request)]\<rparr>)
   \<and> 0 \<le> estimate_confidence (replicate 50 (CHR ''x'')) 0.5
   \<and> estimate_confidence (replicate 50 (CHR ''x'')) 0.5 \<le> 0.95 \<and> (0::real) \<le> 0.5"
proof -
  have a: "0 \<le> t_prepare demo_timing" and b: "0 \<le> t_generate demo_timing"
    by (simp_all add: demo_timing_def)
  show ?thesis using a b response_bounds [OF a b demo_run] demo_run by simp
qed

text \<open>
  C9, as the code has it. When the configured model is absent from the list of the client and
  the pull fails, \<open>initialize\<close> raises nothing and still runs the validation generation,
  which alone decides: \<open>initialize\<close> returns, and \<open>model_loaded\<close> becomes, whether that
  generation succeeded. The health endpoint then reports that flag, with status
  \<^verbatim>\<open>"healthy"\<close> and HTTP 200.
\<close>

theorem pull_failure_leaves_validation_to_decide:
  assumes "list_reply b (calls w) = Inr names" and "model_name self \<notin> set names"
    and "pull_reply b (calls w @ [ListCall]) (model_name self) = Inl e"
  shows "\<exists>r self' w' h.
      initialize b self w = (Inr r, self', w')
    \<and> r = (\<not> isl (generate_reply b (calls w @ [ListCall, PullCall (model_name self)])
                   (model_name self) ''def hello():'' validation_options))
    \<and> model_loaded self' = r
    \<and> health_check \<lparr>inference_engine = Some self', start_time = t0\<rparr> w' = Inr h
    \<and> health_model_loaded h = r \<and> status h = ''healthy''
    \<and> http_status (health_check \<lparr>inference_engine = Some self', start_time = t0\<rparr> w') = 200"
  unfolding initialize_absent_pull_failed [OF assms]
  by (simp add: health_check_def is_model_loaded_def)

text \<open>
  C9 as amended, at a concrete input: a client without the model, whose pull and generation
  both fail.
\<close>

theorem pull_failure_leaves_validation_to_decide_witness:
  "list_reply offline_backend (calls world0) = Inr []
   \<and> model_name (CodeLlamaInference_init ServerConfig_default) \<notin> set []
   \<and> pull_reply offline_backend (calls world0 @ [ListCall])
        (model_name (CodeLlamaInference_init ServerConfig_default)) = Inl (ClientError ''pull failed'')
   \<and> fst (initialize offline_backend (CodeLlamaInference_init ServerConfig_default) world0) = Inr False
   \<and> \<not> model_loaded (fst (snd (initialize offline_backend (CodeLlamaInference_init ServerConfig_default) world0)))"
proof -
  have a: "list_reply offline_backend (calls world0) = Inr []"
    by (simp add: offline_backend_def fixed_backend_def)
  have b: "model_name (CodeLlamaInference_init ServerConfig_default) \<notin> set []" by simp
  have c: "pull_reply offline_backend (calls world0 @ [ListCall])
        (model_name (CodeLlamaInference_init ServerConfig_default)) = Inl (ClientError ''pull failed'')"
    by (simp add: offline_backend_def fixed_backend_def)
  have g: "isl (generate_reply offline_backend
      (calls world0 @ [ListCall, PullCall (model_name (CodeLlamaInference_init ServerConfig_default))])
      (model_name (CodeLlamaInference_init ServerConfig_default)) ''def hello():'' validation_options)"
    by (simp add: offline_backend_def fixed_backend_def)
  from pull_failure_leaves_validation_to_decide [OF a b c, of 0] g a b c
  show ?thesis by auto
qed

text \<open>
  C9 as stated fails: a client whose list lacks the model and whose pull fails, but whose
  generation succeeds, leaves the manager loaded.
\<close>

theorem pull_failure_then_loaded_counterexample:
  "list_reply stale_list_backend (calls world0) = Inr []
   \<and> pull_reply stale_list_backend (calls world0 @ [ListCall])
        (model_name (CodeLlamaInference_init ServerConfig_default)) = Inl (ClientError ''pull failed'')
   \<and> fst (initialize stale_list_backend (CodeLlamaInference_init ServerConfig_default) world0) = Inr True
   \<and> model_loaded (fst (snd (initialize stale_list_backend (CodeLlamaInference_init ServerConfig_default) world0)))"
  by (simp add: stale_list_backend_def fixed_backend_def initialize_def initialize_try_def
      pull_model_def Let_def world0_def CodeLlamaInference_init_def)

text \<open>
  C10. A post-processed completion neither starts nor ends with whitespace, and it is empty
  or each of its lines has a character that is not whitespace.
\<close>

theorem post_processed_has_no_blank_line:
  "(post_process_completion s \<noteq> [] \<longrightarrow>
      \<not> isspace (hd (post_process_completion s)) \<and> \<not> isspace (last (post_process_completion s)))
   \<and> (post_process_completion s = [] \<or>
        (\<forall>l\<in>set (split_nl (post_process_completion s)). \<not> blank l))"
proof -
  have "post_process_completion s \<noteq> [] \<longrightarrow>
      \<not> isspace (hd (post_process_completion s)) \<and> \<not> isspace (last (post_process_completion s))"
    unfolding post_process_strip using strip_ends by blast
  with post_lines [of s] show ?thesis by blast
qed

text \<open>
  C10 at a concrete input: leading newline and indentation, one line of code, a gap, more code.
\<close>

theorem post_processed_has_no_blank_line_witness:
  "post_process_completion ([nl] @ ''    print(1)'' @ [nl, nl] @ ''x = 2'') = ''print(1)''
   \<and> \<not> isspace (hd ''print(1)'') \<and> \<not> isspace (last ''print(1)'')
   \<and> split_nl ''print(1)'' = [''print(1)''] \<and> \<not> blank ''print(1)''"
proof -
  have e: "post_process_completion ([nl] @ ''    print(1)'' @ [nl, nl] @ ''x = 2'') = ''print(1)''"
    by (simp add: eval_defs)
  from post_processed_has_no_blank_line [of "[nl] @ ''    print(1)'' @ [nl, nl] @ ''x = 2''"]
  show ?thesis unfolding e by (simp add: nl_def)
qed

end
